theory Spec2Isabelle
  imports Main "HOL-Library.Sublist" "HOL-Library.Word"
begin

section \<open>The Kubelet summary client (metrics/sources/summary/client.go)\<close>

text \<open>
  The package is one Go file: the type \<open>kubeletClient\<close>, the error type \<open>ErrNotFound\<close>
  with its predicate \<open>IsNotFoundError\<close>, and the two methods \<open>postRequestAndGetValue\<close>
  and \<open>GetSummary\<close>. Go strings and byte slices are byte strings (\<^typ>\<open>string\<close>); a Go
  \<open>error\<close> interface value is an \<open>error option\<close>, \<open>None\<close> being \<open>nil\<close>.
\<close>

subsection \<open>Formatting verbs of \<open>fmt.Sprintf\<close>\<close>

text \<open>\<open>%d\<close> of an unsigned integer: its decimal digits.\<close>

definition decimal_digit :: "nat \<Rightarrow> char" where
  "decimal_digit d = ''0123456789'' ! d"

function itoa :: "nat \<Rightarrow> string" where
  "itoa n = (if n < 10 then [decimal_digit n]
             else itoa (n div 10) @ [decimal_digit (n mod 10)])"
  by pat_completeness auto
termination
  by (relation "measure id") auto

declare itoa.simps [simp del]

text \<open>
  \<open>%q\<close> of a string is \<open>strconv.Quote\<close>: the text between double quotes, rune by rune.
  A double quote and a backslash get a backslash; a printable rune is copied; the
  control characters have their C escapes or \<open>\xNN\<close>. For a rune that starts with a
  byte of 0x80 or more the answer depends on the UTF-8 decoder and on the Unicode tables
  of the runtime, so the function takes them as the parameter \<open>qr\<close>: the escaped text of
  the first rune of its argument and the number of bytes the rune takes.
\<close>

definition lowerhex :: "nat \<Rightarrow> char" where
  "lowerhex d = ''0123456789abcdef'' ! d"

definition quote_ascii :: "char \<Rightarrow> string" where
  "quote_ascii c =
     (if c = CHR 0x22 \<or> c = CHR 0x5C then [CHR 0x5C, c]
      else if 0x20 \<le> (of_char c :: nat) \<and> (of_char c :: nat) < 0x7F then [c]
      else if c = CHR 0x07 then [CHR 0x5C, CHR ''a'']
      else if c = CHR 0x08 then [CHR 0x5C, CHR ''b'']
      else if c = CHR 0x0C then [CHR 0x5C, CHR ''f'']
      else if c = CHR 0x0A then [CHR 0x5C, CHR ''n'']
      else if c = CHR 0x0D then [CHR 0x5C, CHR ''r'']
      else if c = CHR 0x09 then [CHR 0x5C, CHR ''t'']
      else if c = CHR 0x0B then [CHR 0x5C, CHR ''v'']
      else [CHR 0x5C, CHR ''x'', lowerhex (of_char c div 16), lowerhex (of_char c mod 16)])"

fun quote_runes :: "(string \<Rightarrow> string \<times> nat) \<Rightarrow> string \<Rightarrow> string" where
  "quote_runes qr [] = []"
| "quote_runes qr (c # cs) =
     (if (of_char c :: nat) < 0x80 then quote_ascii c @ quote_runes qr cs
      else fst (qr (c # cs)) @ quote_runes qr (drop (snd (qr (c # cs)) - 1) cs))"

definition quote :: "(string \<Rightarrow> string \<times> nat) \<Rightarrow> string \<Rightarrow> string" where
  "quote qr s = [CHR 0x22] @ quote_runes qr s @ [CHR 0x22]"

text \<open>The bytes that \<open>%q\<close> copies as they are: printable ASCII but the quote and the backslash.\<close>

definition plain_byte :: "char \<Rightarrow> bool" where
  "plain_byte c \<longleftrightarrow>
     0x20 \<le> (of_char c :: nat) \<and> (of_char c :: nat) < 0x7F \<and> c \<noteq> CHR 0x22 \<and> c \<noteq> CHR 0x5C"

subsection \<open>Errors\<close>

text \<open>
  The error values the package meets: its own \<open>*ErrNotFound\<close>, the \<open>*errors.errorString\<close>
  that \<open>fmt.Errorf\<close> returns, and an error of a type of another package (the \<open>*url.Error\<close>
  of \<open>client.Do\<close>, the syntax error of the decoder, the error of a reader) with its message
  and the error it wraps, if any. An \<open>ErrNotFound\<close> here is a non-nil pointer; the package
  never puts a nil \<open>*ErrNotFound\<close> into an \<open>error\<close>.
\<close>

datatype error =
    ErrNotFound (endpoint: string)
  | errorString string
  | Foreign string "error option"

fun Error :: "(string \<Rightarrow> string \<times> nat) \<Rightarrow> error \<Rightarrow> string" where
  "Error qr (ErrNotFound ep) = quote qr ep @ '' not found''"
| "Error qr (errorString s) = s"
| "Error qr (Foreign m cause) = m"

text \<open>The type assertion \<open>err.(*ErrNotFound)\<close>: it looks at the dynamic type of \<open>err\<close> only.\<close>

fun IsNotFoundError :: "error option \<Rightarrow> bool" where
  "IsNotFoundError (Some (ErrNotFound ep)) = True"
| "IsNotFoundError err = False"

subsection \<open>Requests, responses and the client\<close>

record url =
  Scheme :: string
  Opaque :: string
  User :: "string option"
  Host :: string
  Path :: string
  RawPath :: string
  ForceQuery :: bool
  RawQuery :: string
  Fragment :: string

record request =
  Method :: string
  URL :: "url option"

text \<open>
  A response body is an \<open>io.ReadCloser\<close>: the chunks its \<open>Read\<close> still has to deliver, the
  error \<open>Read\<close> fails with after them (\<open>None\<close>: it ends with \<open>io.EOF\<close>), whether the end
  of the stream has been reached, and whether \<open>Close\<close> has been called.
\<close>

record body =
  pending :: "string list"
  fault :: "error option"
  at_eof :: bool
  isClosed :: bool

text \<open>
  \<open>ioutil.ReadAll\<close> reads until \<open>io.EOF\<close> or an error and returns what it has read; an
  \<open>io.EOF\<close> is not reported as an error.
\<close>

definition ReadAll :: "body \<Rightarrow> string \<times> error option \<times> body" where
  "ReadAll b = (concat (pending b), fault b, b\<lparr>pending := [], at_eof := (fault b = None)\<rparr>)"

definition Close :: "body \<Rightarrow> body" where
  "Close b = b\<lparr>isClosed := True\<rparr>"

record response =
  Status :: string
  StatusCode :: int
  Body :: body

definition StatusOK :: int where
  "StatusOK = 200"

definition StatusNotFound :: int where
  "StatusNotFound = 404"

text \<open>
  A transport answers a request with a response or an error and may change its own state
  \<open>'w\<close> (connections, counters, the remote end).
\<close>

type_synonym 'w round_tripper = "request \<Rightarrow> 'w \<Rightarrow> (error + response) \<times> 'w"

text \<open>The struct \<open>http.Client\<close>; a nil \<open>Transport\<close> is \<open>None\<close>.\<close>

datatype 'w http_Client = http_Client (Transport: "'w round_tripper option")

text \<open>
  The port is a Go \<open>uint\<close>, 64 bits wide on the platforms the server is built for; the
  program only prints it.
\<close>

record 'w kubeletClient =
  portIsInsecure :: bool
  port :: "64 word"
  client :: "'w http_Client option"

text \<open>
  What the package imports and does not define: \<open>(*url.URL).String\<close>, \<open>http.NewRequest\<close>
  (with a nil body), \<open>(*http.Client).Do\<close>, \<open>http.DefaultClient\<close>, \<open>json.Unmarshal\<close> into a
  \<open>*stats.Summary\<close> (the value before and after; it may write fields before it fails),
  the zero \<open>stats.Summary\<close>, the rune escaping of \<open>%q\<close> beyond ASCII, and the verbosity
  \<open>glog\<close> runs with. The decoded type \<open>'v\<close> stays abstract.
\<close>

record ('w, 'v) env =
  url_String :: "url \<Rightarrow> string"
  http_NewRequest :: "string \<Rightarrow> string \<Rightarrow> error + request"
  Client_Do :: "'w http_Client \<Rightarrow> 'w round_tripper"
  DefaultClient :: "'w http_Client"
  json_Unmarshal :: "string \<Rightarrow> 'v \<Rightarrow> error option \<times> 'v"
  Summary_zero :: 'v
  quote_rune :: "string \<Rightarrow> string \<times> nat"
  glog_v :: nat

text \<open>
  The state a call runs in: the client object \<open>kc\<close> the method is called on, the state of
  the transport, the lines written by \<open>glog\<close>, and every response body handed out so far,
  as the program left it.
\<close>

record 'w state =
  kc :: "'w kubeletClient"
  net :: 'w
  glog :: "string list"
  bodies :: "body list"

text \<open>A call returns its results or panics (a nil pointer dereference).\<close>

datatype 'a outcome = Returns 'a | Panics

subsection \<open>The program\<close>

text \<open>
  \<open>defer response.Body.Close()\<close>: when the function returns or panics, the body is closed
  (the error of \<open>Close\<close> is dropped) and stays behind in the state.
\<close>

definition deferred_Close :: "body \<Rightarrow> 'a \<times> 'w state \<Rightarrow> 'a \<times> 'w state" where
  "deferred_Close b r = (fst r, (snd r)\<lparr>bodies := bodies (snd r) @ [Close b]\<rparr>)"

text \<open>\<open>glog.V(level).Infof\<close> writes the line when the verbosity is at least the level.\<close>

definition Infof :: "('w, 'v) env \<Rightarrow> nat \<Rightarrow> string \<Rightarrow> 'w state \<Rightarrow> 'w state" where
  "Infof env level line st = (if level \<le> glog_v env then st\<lparr>glog := glog st @ [line]\<rparr> else st)"

text \<open>
  \<open>postRequestAndGetValue\<close> returns the error and the value \<open>value\<close> points to when it
  returns. The receiver is not used.
\<close>

definition postRequestAndGetValue ::
  "('w, 'v) env \<Rightarrow> 'w http_Client \<Rightarrow> request \<Rightarrow> 'v \<Rightarrow> 'w state
     \<Rightarrow> (error option \<times> 'v) outcome \<times> 'w state" where
  "postRequestAndGetValue env cl req val st =
     (case Client_Do env cl req (net st) of
        (Inl err, n) \<Rightarrow> (Returns (Some err, val), st\<lparr>net := n\<rparr>)
      | (Inr response, n) \<Rightarrow>
          (case ReadAll (Body response) of
             (data, rerr, b) \<Rightarrow>
               deferred_Close b
                 (case rerr of
                    Some err \<Rightarrow>
                      (Returns (Some (errorString (''failed to read response body - ''
                          @ Error (quote_rune env) err)), val), st\<lparr>net := n\<rparr>)
                  | None \<Rightarrow>
                      if StatusCode response = StatusNotFound then
                        (case URL req of
                           None \<Rightarrow> (Panics, st\<lparr>net := n\<rparr>)
                         | Some u \<Rightarrow>
                             (Returns (Some (ErrNotFound (url_String env u)), val), st\<lparr>net := n\<rparr>))
                      else if StatusCode response \<noteq> StatusOK then
                        (Returns (Some (errorString (''request failed - ''
                            @ quote (quote_rune env) (Status response) @ '', response: ''
                            @ quote (quote_rune env) data)), val), st\<lparr>net := n\<rparr>)
                      else
                        (let kubeletAddr = (case URL req of None \<Rightarrow> ''[unknown]'' | Some u \<Rightarrow> Host u);
                             st' = Infof env 10 (''Raw response from Kubelet at '' @ kubeletAddr
                                     @ '': '' @ data) (st\<lparr>net := n\<rparr>)
                         in case json_Unmarshal env data val of
                              (Some err, val') \<Rightarrow>
                                (Returns (Some (errorString (''failed to parse output. Response: ''
                                    @ quote (quote_rune env) data @ ''. Error: ''
                                    @ Error (quote_rune env) err)), val'), st')
                            | (None, val') \<Rightarrow> (Returns (None, val'), st')))))"

text \<open>Lines 84 to 91 of \<open>GetSummary\<close>: the \<open>url.URL\<close> value it builds.\<close>

definition GetSummary_url :: "'w kubeletClient \<Rightarrow> string \<Rightarrow> url" where
  "GetSummary_url k host =
     (let u = \<lparr>Scheme = ''https'', Opaque = [], User = None,
                Host = host @ '':'' @ itoa (unat (port k)),
                Path = ''/stats/summary/'', RawPath = [], ForceQuery = False,
                RawQuery = [], Fragment = []\<rparr>
      in if portIsInsecure k then u\<lparr>Scheme := ''http''\<rparr> else u)"

text \<open>Lines 98 to 101: the client of \<open>kc\<close>, or \<open>http.DefaultClient\<close> when it is nil.\<close>

definition GetSummary_client :: "('w, 'v) env \<Rightarrow> 'w kubeletClient \<Rightarrow> 'w http_Client" where
  "GetSummary_client env k = (case client k of None \<Rightarrow> DefaultClient env | Some c \<Rightarrow> c)"

text \<open>
  \<open>GetSummary\<close> returns the pair \<open>(*stats.Summary, error)\<close>: the pointer is \<open>None\<close> when
  nil, otherwise the value it points to.
\<close>

definition GetSummary ::
  "('w, 'v) env \<Rightarrow> string \<Rightarrow> 'w state \<Rightarrow> ('v option \<times> error option) outcome \<times> 'w state" where
  "GetSummary env host st =
     (case http_NewRequest env ''GET'' (url_String env (GetSummary_url (kc st) host)) of
        Inl err \<Rightarrow> (Returns (None, Some err), st)
      | Inr req \<Rightarrow>
          (let summary = Summary_zero env;
               cl = GetSummary_client env (kc st)
           in case postRequestAndGetValue env cl req summary st of
                (Returns (err, summary'), st') \<Rightarrow> (Returns (Some summary', err), st')
              | (Panics, st') \<Rightarrow> (Panics, st')))"

definition NewKubeletClient ::
  "'w round_tripper option \<Rightarrow> 64 word \<Rightarrow> bool \<Rightarrow> 'w kubeletClient \<times> error option" where
  "NewKubeletClient transport p insecure =
     (let c = http_Client transport
      in (\<lparr>portIsInsecure = insecure, port = p, client = Some c\<rparr>, None))"

subsection \<open>A test double of the imported packages\<close>

text \<open>
  To run a call, the imported functions are given values: a \<open>stats.Summary\<close> cut down
  to the node name, a decoder that knows two documents, \<open>(*url.URL).String\<close> and
  \<open>http.NewRequest\<close> for URLs of a scheme, a host and a path with nothing to escape, and a
  transport that answers every request with one scripted response and counts the
  requests.
\<close>

record NodeStats =
  NodeName :: string

record Summary =
  Node :: NodeStats

definition n1_json :: string where
  \<open>n1_json = ''{"node":{"nodeName":"n1"}}''\<close>

text \<open>
  A document whose node decodes and whose \<open>pods\<close> member has the wrong type:
  \<open>json.Unmarshal\<close> fills in the node name, goes on, and returns the type error.
\<close>

definition n1_pods_json :: string where
  \<open>n1_pods_json = ''{"node":{"nodeName":"n1"},"pods":5}''\<close>

definition stub_Unmarshal :: "string \<Rightarrow> Summary \<Rightarrow> error option \<times> Summary" where
  "stub_Unmarshal data v =
     (if data = n1_json then (None, v\<lparr>Node := \<lparr>NodeName = ''n1''\<rparr>\<rparr>)
      else if data = n1_pods_json then
        (Some (Foreign ''json: cannot unmarshal number into Go struct field Summary.pods'' None),
         v\<lparr>Node := \<lparr>NodeName = ''n1''\<rparr>\<rparr>)
      else (Some (Foreign ''invalid character 'o' in literal null (expecting 'u')'' None), v))"

definition stub_String :: "url \<Rightarrow> string" where
  "stub_String u = Scheme u @ ''://'' @ Host u @ Path u"

definition stub_Parse :: "string \<Rightarrow> url" where
  "stub_Parse s =
     (let rest = drop 3 (dropWhile (\<lambda>c. c \<noteq> CHR '':'') s)
      in \<lparr>Scheme = takeWhile (\<lambda>c. c \<noteq> CHR '':'') s, Opaque = [], User = None,
          Host = takeWhile (\<lambda>c. c \<noteq> CHR ''/'') rest,
          Path = dropWhile (\<lambda>c. c \<noteq> CHR ''/'') rest, RawPath = [], ForceQuery = False,
          RawQuery = [], Fragment = []\<rparr>)"

definition stub_NewRequest :: "string \<Rightarrow> string \<Rightarrow> error + request" where
  "stub_NewRequest m s = Inr \<lparr>Method = m, URL = Some (stub_Parse s)\<rparr>"

definition scripted :: "response \<Rightarrow> nat round_tripper" where
  "scripted resp req n = (Inr resp, Suc n)"

definition stub_Do :: "nat http_Client \<Rightarrow> nat round_tripper" where
  "stub_Do c req n =
     (case Transport c of
        None \<Rightarrow> (Inl (Foreign ''no transport'' None), n)
      | Some t \<Rightarrow> t req n)"

definition stub_env :: "(nat, Summary) env" where
  "stub_env =
     \<lparr>url_String = stub_String, http_NewRequest = stub_NewRequest, Client_Do = stub_Do,
      DefaultClient = http_Client None, json_Unmarshal = stub_Unmarshal,
      Summary_zero = \<lparr>Node = \<lparr>NodeName = []\<rparr>\<rparr>,
      quote_rune = (\<lambda>s. (take 1 s, 1)), glog_v = 0\<rparr>"

definition fresh_body :: "string \<Rightarrow> body" where
  "fresh_body s = \<lparr>pending = [s], fault = None, at_eof = False, isClosed = False\<rparr>"

definition broken_body :: body where
  "broken_body =
     \<lparr>pending = [], fault = Some (Foreign ''unexpected EOF'' None), at_eof = False,
      isClosed = False\<rparr>"

definition stub_state :: "response \<Rightarrow> nat state" where
  "stub_state resp =
     \<lparr>kc = fst (NewKubeletClient (Some (scripted resp)) 10250 False), net = 0, glog = [],
      bodies = []\<rparr>"

definition the_host :: string where
  "the_host = ''10.0.0.1''"

definition the_request :: request where
  "the_request =
     \<lparr>Method = ''GET'',
      URL = Some \<lparr>Scheme = ''https'', Opaque = [], User = None, Host = ''10.0.0.1:10250'',
                  Path = ''/stats/summary/'', RawPath = [], ForceQuery = False,
                  RawQuery = [], Fragment = []\<rparr>\<rparr>"

definition response_200 :: "string \<Rightarrow> response" where
  "response_200 s = \<lparr>Status = ''200 OK'', StatusCode = 200, Body = fresh_body s\<rparr>"

definition response_404 :: "body \<Rightarrow> response" where
  "response_404 b = \<lparr>Status = ''404 Not Found'', StatusCode = 404, Body = b\<rparr>"

definition response_500 :: "body \<Rightarrow> response" where
  "response_500 b = \<lparr>Status = ''500 Internal Server Error'', StatusCode = 500, Body = b\<rparr>"

text \<open>
  Two bodies with a byte that \<open>%q\<close> escapes, and the messages the calls return for them:
  \<open>failed to parse output. Response: "not \"json\"". Error: ...\<close> and
  \<open>request failed - "500 Internal Server Error", response: "internal error\n"\<close>, where
  every backslash is the byte 0x5C and \<open>n\<close> the letter.
\<close>

definition quoted_json :: string where
  \<open>quoted_json = ''not "json"''\<close>

definition quoted_json_message :: string where
  \<open>quoted_json_message =
     ''failed to parse output. Response: "not '' @ [CHR 0x5C] @ ''"json'' @ [CHR 0x5C]
     @ ''"". Error: invalid character 'o' in literal null (expecting 'u')''\<close>

definition error_page :: string where
  "error_page = ''internal error'' @ [CHR 0x0A]"

definition error_page_message :: string where
  \<open>error_page_message =
     ''request failed - "500 Internal Server Error", response: "internal error''
     @ [CHR 0x5C] @ ''n"''\<close>

section \<open>Properties of the model\<close>

subsection \<open>The test double\<close>

lemma stub_NewRequest_the_request:
  "http_NewRequest stub_env ''GET''
     (url_String stub_env (GetSummary_url (kc (stub_state r)) the_host)) = Inr the_request"
  by (simp add: stub_env_def stub_state_def NewKubeletClient_def GetSummary_url_def the_host_def
      stub_String_def stub_NewRequest_def stub_Parse_def the_request_def itoa.simps
      decimal_digit_def)

lemma stub_Do_scripted:
  "Client_Do stub_env (GetSummary_client stub_env (kc (stub_state r))) req (net (stub_state r))
     = (Inr r, 1)"
  by (simp add: stub_env_def stub_state_def NewKubeletClient_def GetSummary_client_def
      stub_Do_def scripted_def)

lemma ReadAll_fresh_body: "ReadAll (fresh_body s) = (s, None, \<lparr>pending = [], fault = None, at_eof = True, isClosed = False\<rparr>)"
  by (simp add: ReadAll_def fresh_body_def)

lemma ReadAll_broken_body:
  "ReadAll broken_body = ([], Some (Foreign ''unexpected EOF'' None), broken_body)"
  by (simp add: ReadAll_def broken_body_def)

subsection \<open>The branches of a call\<close>

lemma post_transport_error:
  assumes "Client_Do env cl req (net st) = (Inl e, n)"
  shows "postRequestAndGetValue env cl req v st = (Returns (Some e, v), st\<lparr>net := n\<rparr>)"
  using assms by (simp add: postRequestAndGetValue_def)

lemma post_read_error:
  assumes "Client_Do env cl req (net st) = (Inr r, n)"
    and "ReadAll (Body r) = (data, Some e, b)"
  shows "postRequestAndGetValue env cl req v st =
           (Returns (Some (errorString (''failed to read response body - ''
               @ Error (quote_rune env) e)), v),
            st\<lparr>net := n, bodies := bodies st @ [Close b]\<rparr>)"
  using assms by (simp add: postRequestAndGetValue_def deferred_Close_def)

lemma post_404:
  assumes "Client_Do env cl req (net st) = (Inr r, n)"
    and "ReadAll (Body r) = (data, None, b)"
    and "StatusCode r = StatusNotFound"
  shows "postRequestAndGetValue env cl req v st =
           (case URL req of
              None \<Rightarrow> Panics
            | Some u \<Rightarrow> Returns (Some (ErrNotFound (url_String env u)), v),
            st\<lparr>net := n, bodies := bodies st @ [Close b]\<rparr>)"
  using assms
  by (simp add: postRequestAndGetValue_def deferred_Close_def split: option.splits)

lemma post_bad_status:
  assumes "Client_Do env cl req (net st) = (Inr r, n)"
    and "ReadAll (Body r) = (data, None, b)"
    and "StatusCode r \<noteq> StatusNotFound" and "StatusCode r \<noteq> StatusOK"
  shows "postRequestAndGetValue env cl req v st =
           (Returns (Some (errorString (''request failed - ''
               @ quote (quote_rune env) (Status r) @ '', response: ''
               @ quote (quote_rune env) data)), v),
            st\<lparr>net := n, bodies := bodies st @ [Close b]\<rparr>)"
  using assms by (simp add: postRequestAndGetValue_def deferred_Close_def)

lemma post_200:
  assumes "Client_Do env cl req (net st) = (Inr r, n)"
    and "ReadAll (Body r) = (data, None, b)"
    and "StatusCode r = StatusOK"
    and "json_Unmarshal env data v = (perr, v')"
  shows "postRequestAndGetValue env cl req v st =
           (case perr of
              Some e \<Rightarrow>
                Returns (Some (errorString (''failed to parse output. Response: ''
                  @ quote (quote_rune env) data @ ''. Error: '' @ Error (quote_rune env) e)), v')
            | None \<Rightarrow> Returns (None, v'),
            (Infof env 10 (''Raw response from Kubelet at ''
                @ (case URL req of None \<Rightarrow> ''[unknown]'' | Some u \<Rightarrow> Host u) @ '': '' @ data)
              (st\<lparr>net := n\<rparr>))
            \<lparr>bodies := bodies st @ [Close b]\<rparr>)"
  using assms
  by (simp add: postRequestAndGetValue_def deferred_Close_def Let_def Infof_def
      StatusOK_def StatusNotFound_def split: option.splits)


lemma status_cases:
  obtains (is_404) "StatusCode r = StatusNotFound"
  | (is_other) "StatusCode r \<noteq> StatusNotFound" "StatusCode r \<noteq> StatusOK"
  | (is_200) "StatusCode r = StatusOK"
  by blast

text \<open>The state a call of \<open>postRequestAndGetValue\<close> leaves, in one equation.\<close>

lemma post_state:
  assumes do: "Client_Do env cl req (net st) = (Inr r, n)"
  shows "\<exists>ls. snd (postRequestAndGetValue env cl req v st) =
           st\<lparr>net := n, glog := glog st @ ls, bodies := bodies st @ [Close (snd (snd (ReadAll (Body r))))]\<rparr>"
proof -
  obtain data rerr b where ra: "ReadAll (Body r) = (data, rerr, b)"
    by (rule prod_cases3)
  obtain perr v' where um: "json_Unmarshal env data v = (perr, v')"
    by (rule prod.exhaust)
  show ?thesis
  proof (cases rerr)
    case (Some e)
    with post_read_error [OF do, of data e b] ra show ?thesis
      by (intro exI [of _ "[]"]) simp
  next
    case None
    show ?thesis
    proof (cases r rule: status_cases)
      case is_404
      with post_404 [OF do, of data b] ra None show ?thesis
        by (intro exI [of _ "[]"]) simp
    next
      case is_other
      with post_bad_status [OF do, of data b] ra None show ?thesis
        by (intro exI [of _ "[]"]) simp
    next
      case is_200
      show ?thesis
      proof (cases "10 \<le> glog_v env")
        case True
        with post_200 [OF do _ is_200 um, of b] ra None show ?thesis
          by (intro exI [of _ "[''Raw response from Kubelet at ''
                @ (case URL req of None \<Rightarrow> ''[unknown]'' | Some u \<Rightarrow> Host u) @ '': '' @ data]"])
             (simp add: Infof_def)
      next
        case False
        with post_200 [OF do _ is_200 um, of b] ra None show ?thesis
          by (intro exI [of _ "[]"]) (simp add: Infof_def)
      qed
    qed
  qed
qed

text \<open>What it returns depends on the state through the reply of the transport only.\<close>

lemma post_reply_only:
  assumes do: "Client_Do env cl req (net st) = (reply, n)"
    and do': "Client_Do env cl req (net st') = (reply, n')"
  shows "fst (postRequestAndGetValue env cl req v st) =
           fst (postRequestAndGetValue env cl req v st')"
proof (cases reply)
  case (Inl e)
  with post_transport_error [of env cl req st e n v] post_transport_error [of env cl req st' e n' v]
    do do' show ?thesis by simp
next
  case (Inr r)
  note d = do [unfolded Inr] and d' = do' [unfolded Inr]
  obtain data rerr b where ra: "ReadAll (Body r) = (data, rerr, b)"
    by (rule prod_cases3)
  obtain perr v' where um: "json_Unmarshal env data v = (perr, v')"
    by (rule prod.exhaust)
  show ?thesis
  proof (cases rerr)
    case (Some e)
    with post_read_error [OF d, of data e b v] post_read_error [OF d', of data e b v] ra
    show ?thesis by simp
  next
    case None
    show ?thesis
    proof (cases r rule: status_cases)
      case is_404
      with post_404 [OF d, of data b v] post_404 [OF d', of data b v] ra None show ?thesis
        by simp
    next
      case is_other
      with post_bad_status [OF d, of data b v] post_bad_status [OF d', of data b v] ra None
      show ?thesis by simp
    next
      case is_200
      with post_200 [OF d _ is_200 um, of b] post_200 [OF d' _ is_200 um, of b] ra None show ?thesis
        by simp
    qed
  qed
qed


lemma GetSummary_request:
  assumes "http_NewRequest env ''GET'' (url_String env (GetSummary_url (kc st) host)) = Inr req"
  shows "GetSummary env host st =
           (case postRequestAndGetValue env (GetSummary_client env (kc st)) req (Summary_zero env) st of
              (Returns (err, summary'), st') \<Rightarrow> (Returns (Some summary', err), st')
            | (Panics, st') \<Rightarrow> (Panics, st'))"
  using assms by (simp add: GetSummary_def)

lemma GetSummary_snd:
  assumes "http_NewRequest env ''GET'' (url_String env (GetSummary_url (kc st) host)) = Inr req"
  shows "snd (GetSummary env host st) =
           snd (postRequestAndGetValue env (GetSummary_client env (kc st)) req (Summary_zero env) st)"
  by (simp add: GetSummary_request [OF assms] split: prod.splits outcome.splits)

lemma GetSummary_bad_request:
  assumes "http_NewRequest env ''GET'' (url_String env (GetSummary_url (kc st) host)) = Inl e"
  shows "GetSummary env host st = (Returns (None, Some e), st)"
  using assms by (simp add: GetSummary_def)

lemma GetSummary_transport_error:
  assumes req: "http_NewRequest env ''GET'' (url_String env (GetSummary_url (kc st) host)) = Inr req"
    and do: "Client_Do env (GetSummary_client env (kc st)) req (net st) = (Inl e, n)"
  shows "fst (GetSummary env host st) = Returns (Some (Summary_zero env), Some e)"
  by (simp add: GetSummary_request [OF req] post_transport_error [OF do])

lemma GetSummary_read_error:
  assumes req: "http_NewRequest env ''GET'' (url_String env (GetSummary_url (kc st) host)) = Inr req"
    and do: "Client_Do env (GetSummary_client env (kc st)) req (net st) = (Inr r, n)"
    and ra: "ReadAll (Body r) = (data, Some e, b)"
  shows "fst (GetSummary env host st) =
           Returns (Some (Summary_zero env),
             Some (errorString (''failed to read response body - '' @ Error (quote_rune env) e)))"
  by (simp add: GetSummary_request [OF req] post_read_error [OF do ra])

lemma GetSummary_404:
  assumes req: "http_NewRequest env ''GET'' (url_String env (GetSummary_url (kc st) host)) = Inr req"
    and do: "Client_Do env (GetSummary_client env (kc st)) req (net st) = (Inr r, n)"
    and ra: "ReadAll (Body r) = (data, None, b)"
    and status: "StatusCode r = StatusNotFound"
  shows "fst (GetSummary env host st) =
           (case URL req of
              None \<Rightarrow> Panics
            | Some u \<Rightarrow> Returns (Some (Summary_zero env), Some (ErrNotFound (url_String env u))))"
  by (simp add: GetSummary_request [OF req] post_404 [OF do ra status] split: option.splits)

lemma GetSummary_bad_status:
  assumes req: "http_NewRequest env ''GET'' (url_String env (GetSummary_url (kc st) host)) = Inr req"
    and do: "Client_Do env (GetSummary_client env (kc st)) req (net st) = (Inr r, n)"
    and ra: "ReadAll (Body r) = (data, None, b)"
    and status: "StatusCode r \<noteq> StatusNotFound" "StatusCode r \<noteq> StatusOK"
  shows "fst (GetSummary env host st) =
           Returns (Some (Summary_zero env),
             Some (errorString (''request failed - '' @ quote (quote_rune env) (Status r)
               @ '', response: '' @ quote (quote_rune env) data)))"
  by (simp add: GetSummary_request [OF req] post_bad_status [OF do ra status])

lemma GetSummary_decoded:
  assumes req: "http_NewRequest env ''GET'' (url_String env (GetSummary_url (kc st) host)) = Inr req"
    and do: "Client_Do env (GetSummary_client env (kc st)) req (net st) = (Inr r, n)"
    and ra: "ReadAll (Body r) = (data, None, b)"
    and status: "StatusCode r = StatusOK"
    and um: "json_Unmarshal env data (Summary_zero env) = (None, v)"
  shows "fst (GetSummary env host st) = Returns (Some v, None)"
  by (simp add: GetSummary_request [OF req] post_200 [OF do ra status um])

lemma GetSummary_undecoded:
  assumes req: "http_NewRequest env ''GET'' (url_String env (GetSummary_url (kc st) host)) = Inr req"
    and do: "Client_Do env (GetSummary_client env (kc st)) req (net st) = (Inr r, n)"
    and ra: "ReadAll (Body r) = (data, None, b)"
    and status: "StatusCode r = StatusOK"
    and um: "json_Unmarshal env data (Summary_zero env) = (Some e, v)"
  shows "fst (GetSummary env host st) =
           Returns (Some v,
             Some (errorString (''failed to parse output. Response: ''
               @ quote (quote_rune env) data @ ''. Error: '' @ Error (quote_rune env) e)))"
  by (simp add: GetSummary_request [OF req] post_200 [OF do ra status um])

lemma ReadAll_parts:
  "ReadAll bd = (fst (ReadAll bd), fst (snd (ReadAll bd)), snd (snd (ReadAll bd)))"
  by simp

subsection \<open>Quoting\<close>

lemma quote_ascii_plain: "plain_byte c \<Longrightarrow> quote_ascii c = [c]"
  by (simp add: plain_byte_def quote_ascii_def)

lemma quote_runes_plain: "list_all plain_byte s \<Longrightarrow> quote_runes qr s = s"
proof (induction s)
  case Nil
  show ?case by simp
next
  case (Cons c s)
  then have "plain_byte c" and "list_all plain_byte s" by simp_all
  moreover from \<open>plain_byte c\<close> have "(of_char c :: nat) < 0x80"
    by (simp add: plain_byte_def)
  ultimately show ?case using Cons.IH by (simp add: quote_ascii_plain)
qed

lemma sublist_quote_plain:
  assumes "list_all plain_byte s"
  shows "sublist s (quote qr s)"
  unfolding quote_def quote_runes_plain [OF assms] by (rule sublist_appendI)

lemma sublist_in_quote:
  assumes "list_all plain_byte s"
  shows "sublist s (a @ quote qr s @ b)"
proof -
  have "sublist (quote qr s) (a @ quote qr s @ b)" by (rule sublist_appendI)
  with sublist_quote_plain [OF assms, of qr] show ?thesis
    by (rule sublist_order.order_trans)
qed

lemma sublist_last: "sublist y (a @ x @ b @ y)"
proof -
  have "sublist y ((a @ x @ b) @ y)" by (rule sublist_append_leftI)
  then show ?thesis by simp
qed

text \<open>The seven ways a call of \<open>GetSummary\<close> can go.\<close>

lemma GetSummary_outcomes:
  obtains
    (bad_request) e where
      "http_NewRequest env ''GET'' (url_String env (GetSummary_url (kc st) host)) = Inl e"
      "fst (GetSummary env host st) = Returns (None, Some e)"
  | (transport_error) req e n where
      "http_NewRequest env ''GET'' (url_String env (GetSummary_url (kc st) host)) = Inr req"
      "Client_Do env (GetSummary_client env (kc st)) req (net st) = (Inl e, n)"
      "fst (GetSummary env host st) = Returns (Some (Summary_zero env), Some e)"
  | (read_error) req r n e where
      "http_NewRequest env ''GET'' (url_String env (GetSummary_url (kc st) host)) = Inr req"
      "Client_Do env (GetSummary_client env (kc st)) req (net st) = (Inr r, n)"
      "fst (snd (ReadAll (Body r))) = Some e"
      "fst (GetSummary env host st) =
         Returns (Some (Summary_zero env),
           Some (errorString (''failed to read response body - '' @ Error (quote_rune env) e)))"
  | (not_found) req r n where
      "http_NewRequest env ''GET'' (url_String env (GetSummary_url (kc st) host)) = Inr req"
      "Client_Do env (GetSummary_client env (kc st)) req (net st) = (Inr r, n)"
      "fst (snd (ReadAll (Body r))) = None"
      "StatusCode r = StatusNotFound"
      "fst (GetSummary env host st) =
         (case URL req of
            None \<Rightarrow> Panics
          | Some u \<Rightarrow> Returns (Some (Summary_zero env), Some (ErrNotFound (url_String env u))))"
  | (bad_status) req r n where
      "http_NewRequest env ''GET'' (url_String env (GetSummary_url (kc st) host)) = Inr req"
      "Client_Do env (GetSummary_client env (kc st)) req (net st) = (Inr r, n)"
      "fst (snd (ReadAll (Body r))) = None"
      "StatusCode r \<noteq> StatusNotFound" "StatusCode r \<noteq> StatusOK"
      "fst (GetSummary env host st) =
         Returns (Some (Summary_zero env),
           Some (errorString (''request failed - '' @ quote (quote_rune env) (Status r)
             @ '', response: '' @ quote (quote_rune env) (fst (ReadAll (Body r))))))"
  | (undecoded) req r n e v where
      "http_NewRequest env ''GET'' (url_String env (GetSummary_url (kc st) host)) = Inr req"
      "Client_Do env (GetSummary_client env (kc st)) req (net st) = (Inr r, n)"
      "fst (snd (ReadAll (Body r))) = None"
      "StatusCode r = StatusOK"
      "json_Unmarshal env (fst (ReadAll (Body r))) (Summary_zero env) = (Some e, v)"
      "fst (GetSummary env host st) =
         Returns (Some v,
           Some (errorString (''failed to parse output. Response: ''
             @ quote (quote_rune env) (fst (ReadAll (Body r))) @ ''. Error: ''
             @ Error (quote_rune env) e)))"
  | (decoded) req r n v where
      "http_NewRequest env ''GET'' (url_String env (GetSummary_url (kc st) host)) = Inr req"
      "Client_Do env (GetSummary_client env (kc st)) req (net st) = (Inr r, n)"
      "fst (snd (ReadAll (Body r))) = None"
      "StatusCode r = StatusOK"
      "json_Unmarshal env (fst (ReadAll (Body r))) (Summary_zero env) = (None, v)"
      "fst (GetSummary env host st) = Returns (Some v, None)"
proof (cases "http_NewRequest env ''GET'' (url_String env (GetSummary_url (kc st) host))")
  case (Inl e)
  with GetSummary_bad_request [OF Inl] bad_request show ?thesis
    by simp
next
  case (Inr req)
  note req = Inr
  obtain reply n where do: "Client_Do env (GetSummary_client env (kc st)) req (net st) = (reply, n)"
    by (rule prod.exhaust)
  show ?thesis
  proof (cases reply)
    case (Inl e)
    with do have d: "Client_Do env (GetSummary_client env (kc st)) req (net st) = (Inl e, n)"
      by simp
    from transport_error [OF req d GetSummary_transport_error [OF req d]] show ?thesis .
  next
    case (Inr r)
    with do have d: "Client_Do env (GetSummary_client env (kc st)) req (net st) = (Inr r, n)"
      by simp
    obtain data rerr b where ra: "ReadAll (Body r) = (data, rerr, b)"
      by (rule prod_cases3)
    show ?thesis
    proof (cases rerr)
      case (Some e)
      with ra have ra': "ReadAll (Body r) = (data, Some e, b)"
        by simp
      from ra' have "fst (snd (ReadAll (Body r))) = Some e"
        by simp
      from read_error [OF req d this GetSummary_read_error [OF req d ra']] show ?thesis .
    next
      case None
      with ra have ra': "ReadAll (Body r) = (data, None, b)"
        by simp
      then have readable: "fst (snd (ReadAll (Body r))) = None" and data: "fst (ReadAll (Body r)) = data"
        by simp_all
      show ?thesis
      proof (cases r rule: status_cases)
        case is_404
        from GetSummary_404 [OF req d ra' is_404] show ?thesis
          by (rule not_found [OF req d readable is_404])
      next
        case is_other
        from GetSummary_bad_status [OF req d ra' is_other] show ?thesis
          unfolding data [symmetric]
          by (rule bad_status [OF req d readable is_other])
      next
        case is_200
        note ok = is_200
        obtain perr v where um: "json_Unmarshal env data (Summary_zero env) = (perr, v)"
          by (rule prod.exhaust)
        show ?thesis
        proof (cases perr)
          case None
          with um have um': "json_Unmarshal env data (Summary_zero env) = (None, v)"
            by simp
          from decoded [OF req d readable ok um' [folded data] GetSummary_decoded [OF req d ra' ok um']]
          show ?thesis .
        next
          case (Some e)
          with um have um': "json_Unmarshal env data (Summary_zero env) = (Some e, v)"
            by simp
          from GetSummary_undecoded [OF req d ra' ok um'] show ?thesis
            unfolding data [symmetric]
            by (rule undecoded [OF req d readable ok um' [folded data]])
        qed
      qed
    qed
  qed
qed


lemma GetSummary_fst:
  assumes "http_NewRequest env ''GET'' (url_String env (GetSummary_url (kc st) host)) = Inr req"
  shows "fst (GetSummary env host st) =
           (case fst (postRequestAndGetValue env (GetSummary_client env (kc st)) req
                 (Summary_zero env) st) of
              Returns (err, summary') \<Rightarrow> Returns (Some summary', err)
            | Panics \<Rightarrow> Panics)"
  by (simp add: GetSummary_request [OF assms] split: prod.splits outcome.splits)

lemma GetSummary_kc: "kc (snd (GetSummary env host st)) = kc st"
proof (cases "http_NewRequest env ''GET'' (url_String env (GetSummary_url (kc st) host))")
  case (Inl e)
  from GetSummary_bad_request [OF Inl] show ?thesis
    by simp
next
  case (Inr req)
  obtain reply n where do: "Client_Do env (GetSummary_client env (kc st)) req (net st) = (reply, n)"
    by (rule prod.exhaust)
  show ?thesis
  proof (cases reply)
    case (Inl e)
    with do post_transport_error [of env "GetSummary_client env (kc st)" req st e n "Summary_zero env"]
    show ?thesis
      by (simp add: GetSummary_snd [OF Inr])
  next
    case r: (Inr r)
    with do have "Client_Do env (GetSummary_client env (kc st)) req (net st) = (Inr r, n)"
      by simp
    from post_state [OF this, of "Summary_zero env"] show ?thesis
      by (auto simp: GetSummary_snd [OF Inr])
  qed
qed

lemma GetSummary_bodies:
  assumes req: "http_NewRequest env ''GET'' (url_String env (GetSummary_url (kc st) host)) = Inr req"
    and do: "Client_Do env (GetSummary_client env (kc st)) req (net st) = (Inr r, n)"
  shows "bodies (snd (GetSummary env host st)) =
           bodies st @ [Close (snd (snd (ReadAll (Body r))))]"
  using post_state [OF do, of "Summary_zero env"] by (auto simp: GetSummary_snd [OF req])

lemma GetSummary_reply_only:
  assumes same: "kc st' = kc st"
    and stable: "\<And>req. http_NewRequest env ''GET'' (url_String env (GetSummary_url (kc st) host)) = Inr req
      \<Longrightarrow> fst (Client_Do env (GetSummary_client env (kc st)) req (net st'))
          = fst (Client_Do env (GetSummary_client env (kc st)) req (net st))"
  shows "fst (GetSummary env host st') = fst (GetSummary env host st)"
proof (cases "http_NewRequest env ''GET'' (url_String env (GetSummary_url (kc st) host))")
  case (Inl e)
  then have "http_NewRequest env ''GET'' (url_String env (GetSummary_url (kc st') host)) = Inl e"
    by (simp add: same)
  from GetSummary_bad_request [OF this] GetSummary_bad_request [OF Inl] show ?thesis
    by simp
next
  case (Inr req)
  then have req': "http_NewRequest env ''GET'' (url_String env (GetSummary_url (kc st') host)) = Inr req"
    by (simp add: same)
  obtain reply n where do: "Client_Do env (GetSummary_client env (kc st)) req (net st) = (reply, n)"
    by (rule prod.exhaust)
  obtain reply' n' where do': "Client_Do env (GetSummary_client env (kc st)) req (net st') = (reply', n')"
    by (rule prod.exhaust)
  from stable [OF Inr] do do' have "reply' = reply"
    by simp
  with do' have "Client_Do env (GetSummary_client env (kc st)) req (net st') = (reply, n')"
    by simp
  from post_reply_only [OF this do, of "Summary_zero env"] show ?thesis
    by (simp add: GetSummary_fst [OF Inr] GetSummary_fst [OF req'] same)
qed

section \<open>The claims\<close>

text \<open>
  C1. When the transport answers the request with status 404 and the body can be read,
  \<open>GetSummary\<close> returns the error \<open>ErrNotFound\<close> whose endpoint is the string of the
  request's URL, and \<open>IsNotFoundError\<close> holds of it.
\<close>

theorem GetSummary_not_found:
  assumes req: "http_NewRequest env ''GET'' (url_String env (GetSummary_url (kc st) host)) = Inr req"
    and url: "URL req = Some u"
    and do: "Client_Do env (GetSummary_client env (kc st)) req (net st) = (Inr r, n)"
    and status: "StatusCode r = 404"
    and readable: "fst (snd (ReadAll (Body r))) = None"
  shows "fst (GetSummary env host st) =
           Returns (Some (Summary_zero env), Some (ErrNotFound (url_String env u)))
         \<and> endpoint (ErrNotFound (url_String env u)) = url_String env u
         \<and> IsNotFoundError (Some (ErrNotFound (url_String env u)))"
proof -
  from readable have ra: "ReadAll (Body r) = (fst (ReadAll (Body r)), None, snd (snd (ReadAll (Body r))))"
    using ReadAll_parts [of "Body r"] by simp
  from status have "StatusCode r = StatusNotFound"
    by (simp add: StatusNotFound_def)
  from GetSummary_404 [OF req do ra this] url show ?thesis
    by simp
qed

theorem GetSummary_not_found_witness:
  "StatusCode (response_404 (fresh_body ''404 page not found'')) = 404
   \<and> fst (GetSummary stub_env the_host (stub_state (response_404 (fresh_body ''404 page not found''))))
       = Returns (Some \<lparr>Node = \<lparr>NodeName = []\<rparr>\<rparr>,
           Some (ErrNotFound ''https://10.0.0.1:10250/stats/summary/''))
   \<and> IsNotFoundError (Some (ErrNotFound ''https://10.0.0.1:10250/stats/summary/''))"
proof -
  let ?r = "response_404 (fresh_body ''404 page not found'')"
  have url: "URL the_request = Some \<lparr>Scheme = ''https'', Opaque = [], User = None,
      Host = ''10.0.0.1:10250'', Path = ''/stats/summary/'', RawPath = [], ForceQuery = False,
      RawQuery = [], Fragment = []\<rparr>"
    by (simp add: the_request_def)
  have status: "StatusCode ?r = 404"
    by (simp add: response_404_def)
  have readable: "fst (snd (ReadAll (Body ?r))) = None"
    by (simp add: response_404_def ReadAll_fresh_body)
  from GetSummary_not_found [OF stub_NewRequest_the_request url stub_Do_scripted status readable]
  show ?thesis
    by (simp add: status stub_env_def stub_String_def)
qed

text \<open>
  C2. The URL \<open>GetSummary\<close> builds has the scheme \<open>http\<close> exactly when the client is
  insecure and \<open>https\<close> otherwise, the host followed by a colon and the port in decimal as
  its host, the path \<open>/stats/summary/\<close> and no query; \<open>NewKubeletClient\<close> stores the port
  and the scheme policy it is given.
\<close>

theorem GetSummary_url_parts:
  "(Scheme (GetSummary_url k h) = ''http'' \<longleftrightarrow> portIsInsecure k)
   \<and> (Scheme (GetSummary_url k h) = ''https'' \<longleftrightarrow> \<not> portIsInsecure k)
   \<and> Host (GetSummary_url k h) = h @ '':'' @ itoa (unat (port k))
   \<and> Path (GetSummary_url k h) = ''/stats/summary/''
   \<and> RawQuery (GetSummary_url k h) = [] \<and> ForceQuery (GetSummary_url k h) = False
   \<and> portIsInsecure (fst (NewKubeletClient t p b)) = b
   \<and> port (fst (NewKubeletClient t p b)) = p"
  by (simp add: GetSummary_url_def NewKubeletClient_def Let_def)

theorem GetSummary_url_parts_witness:
  "Scheme (GetSummary_url (fst (NewKubeletClient (None :: nat round_tripper option) 10255 True)) ''node-1'') = ''http''
   \<and> Host (GetSummary_url (fst (NewKubeletClient (None :: nat round_tripper option) 10255 True)) ''node-1'') = ''node-1:10255''
   \<and> Path (GetSummary_url (fst (NewKubeletClient (None :: nat round_tripper option) 10255 True)) ''node-1'') = ''/stats/summary/''"
  using GetSummary_url_parts [of "fst (NewKubeletClient (None :: nat round_tripper option) 10255 True)"
      "''node-1''" "None :: nat round_tripper option" 10255 True]
  by (simp add: itoa.simps decimal_digit_def Let_def)

text \<open>
  C3. \<open>IsNotFoundError\<close> is a function of its argument alone, true exactly of an
  \<open>ErrNotFound\<close>: false of nil, of every other error, and of an error that wraps an
  \<open>ErrNotFound\<close>.
\<close>

theorem IsNotFoundError_iff:
  "(IsNotFoundError err \<longleftrightarrow> (\<exists>ep. err = Some (ErrNotFound ep)))
   \<and> IsNotFoundError None = False
   \<and> IsNotFoundError (Some (errorString s)) = False
   \<and> IsNotFoundError (Some (Foreign m cause)) = False
   \<and> IsNotFoundError (Some (Foreign m (Some (ErrNotFound ep')))) = False"
  by (cases err rule: IsNotFoundError.cases) simp_all


theorem IsNotFoundError_iff_witness:
  "IsNotFoundError (Some (ErrNotFound ''https://10.0.0.1:10250/stats/summary/''))
   \<and> IsNotFoundError (Some (Foreign ''Get https://10.0.0.1:10250/stats/summary/: not found''
         (Some (ErrNotFound ''https://10.0.0.1:10250/stats/summary/'')))) = False"
  using IsNotFoundError_iff [of "Some (ErrNotFound ''https://10.0.0.1:10250/stats/summary/'')"
      "[]" "''Get https://10.0.0.1:10250/stats/summary/: not found''" None
      "''https://10.0.0.1:10250/stats/summary/''"]
  by simp

text \<open>
  C4 (as the code has it). A call that returns gives a result pointer and an error that
  are never both nil. The pointer is nil exactly when the request could not be built, and
  the error is then not nil. In every other case the pointer is not nil, whatever the
  error, and it points to the \<open>Summary\<close> allocated for the call: to what the decoder
  left in it when the transport answered with status 200 and the body was read, also when
  the decoder failed after writing a part, and to the untouched zero value when the decoder
  was not reached. When the error is nil, the transport answered with status 200, the body
  was read to its end and the result is the value the decoder made of it without an error.
\<close>

theorem GetSummary_result_and_error:
  assumes ret: "fst (GetSummary env host st) = Returns (res, err)"
  shows "(res = None \<longleftrightarrow>
            (\<exists>e. http_NewRequest env ''GET'' (url_String env (GetSummary_url (kc st) host)) = Inl e))
         \<and> (res = None \<longrightarrow> err \<noteq> None)
         \<and> (err = None \<longrightarrow>
              (\<exists>req r n v.
                 http_NewRequest env ''GET'' (url_String env (GetSummary_url (kc st) host)) = Inr req
                 \<and> Client_Do env (GetSummary_client env (kc st)) req (net st) = (Inr r, n)
                 \<and> StatusCode r = 200
                 \<and> fst (snd (ReadAll (Body r))) = None
                 \<and> json_Unmarshal env (fst (ReadAll (Body r))) (Summary_zero env) = (None, v)
                 \<and> res = Some v))
         \<and> (\<forall>req reply n.
               http_NewRequest env ''GET'' (url_String env (GetSummary_url (kc st) host)) = Inr req
               \<longrightarrow> Client_Do env (GetSummary_client env (kc st)) req (net st) = (reply, n)
               \<longrightarrow> res = Some
                     (case reply of
                        Inl e \<Rightarrow> Summary_zero env
                      | Inr r \<Rightarrow>
                          if fst (snd (ReadAll (Body r))) = None \<and> StatusCode r = 200
                          then snd (json_Unmarshal env (fst (ReadAll (Body r))) (Summary_zero env))
                          else Summary_zero env))"
proof (cases rule: GetSummary_outcomes [where env = env and st = st and host = host])
  case (bad_request e)
  with ret show ?thesis by auto
next
  case (transport_error req e n)
  with ret show ?thesis by auto
next
  case (read_error req r n e)
  with ret show ?thesis by auto
next
  case (not_found req r n)
  with ret show ?thesis by (auto simp: StatusNotFound_def split: option.splits)
next
  case (bad_status req r n)
  with ret show ?thesis by (auto simp: StatusOK_def)
next
  case (undecoded req r n e v)
  with ret show ?thesis by (auto simp: StatusOK_def)
next
  case (decoded req r n v)
  from decoded(6) ret have "res = Some v" and "err = None"
    by simp_all
  moreover from decoded(4) have "StatusCode r = 200"
    by (simp add: StatusOK_def)
  ultimately show ?thesis
    using decoded(1,2,3,5) by auto
qed

theorem GetSummary_result_and_error_witness:
  "fst (GetSummary stub_env the_host (stub_state (response_200 n1_json)))
     = Returns (Some \<lparr>Node = \<lparr>NodeName = ''n1''\<rparr>\<rparr>, None)
   \<and> (\<exists>r :: response. StatusCode r = 200
          \<and> json_Unmarshal stub_env (fst (ReadAll (Body r))) (Summary_zero stub_env)
              = (None, \<lparr>Node = \<lparr>NodeName = ''n1''\<rparr>\<rparr>))
   \<and> (\<exists>e. fst (GetSummary stub_env the_host (stub_state (response_200 n1_pods_json)))
          = Returns (Some \<lparr>Node = \<lparr>NodeName = ''n1''\<rparr>\<rparr>, Some e))
   \<and> Summary_zero stub_env = \<lparr>Node = \<lparr>NodeName = []\<rparr>\<rparr>"
proof -
  let ?r = "response_200 n1_json"
  have ra: "ReadAll (Body ?r) = (n1_json, None, \<lparr>pending = [], fault = None, at_eof = True, isClosed = False\<rparr>)"
    by (simp add: response_200_def ReadAll_fresh_body)
  have status: "StatusCode ?r = StatusOK"
    by (simp add: response_200_def StatusOK_def)
  have decoded: "json_Unmarshal stub_env n1_json (Summary_zero stub_env)
      = (None, \<lparr>Node = \<lparr>NodeName = ''n1''\<rparr>\<rparr>)"
    by (simp add: stub_env_def stub_Unmarshal_def)
  have ret: "fst (GetSummary stub_env the_host (stub_state ?r))
      = Returns (Some \<lparr>Node = \<lparr>NodeName = ''n1''\<rparr>\<rparr>, None)"
    by (rule GetSummary_decoded [OF stub_NewRequest_the_request stub_Do_scripted ra status decoded])
  from GetSummary_result_and_error [OF ret, THEN conjunct2, THEN conjunct2, THEN conjunct1,
      THEN mp, OF refl]
  obtain r :: response and v where "StatusCode r = 200"
    and "json_Unmarshal stub_env (fst (ReadAll (Body r))) (Summary_zero stub_env) = (None, v)"
    and "Some \<lparr>Node = \<lparr>NodeName = ''n1''\<rparr>\<rparr> = Some v"
    by blast
  then have first: "\<exists>r :: response. StatusCode r = 200
      \<and> json_Unmarshal stub_env (fst (ReadAll (Body r))) (Summary_zero stub_env)
          = (None, \<lparr>Node = \<lparr>NodeName = ''n1''\<rparr>\<rparr>)"
    by (intro exI [of _ r]) simp
  let ?p = "response_200 n1_pods_json"
  have ra': "ReadAll (Body ?p) = (n1_pods_json, None, \<lparr>pending = [], fault = None, at_eof = True, isClosed = False\<rparr>)"
    by (simp add: response_200_def ReadAll_fresh_body)
  have status': "StatusCode ?p = StatusOK"
    by (simp add: response_200_def StatusOK_def)
  have partial: "json_Unmarshal stub_env n1_pods_json (Summary_zero stub_env)
      = (Some (Foreign ''json: cannot unmarshal number into Go struct field Summary.pods'' None),
         \<lparr>Node = \<lparr>NodeName = ''n1''\<rparr>\<rparr>)"
    by (simp add: stub_env_def stub_Unmarshal_def n1_json_def n1_pods_json_def)
  note ret' = GetSummary_undecoded [OF stub_NewRequest_the_request stub_Do_scripted ra' status' partial]
  from GetSummary_result_and_error [OF ret', THEN conjunct2, THEN conjunct2, THEN conjunct2,
      THEN spec, THEN spec, THEN spec, THEN mp, THEN mp,
      OF stub_NewRequest_the_request stub_Do_scripted]
  have "Some (\<lparr>Node = \<lparr>NodeName = ''n1''\<rparr>\<rparr> :: Summary)
      = Some (snd (json_Unmarshal stub_env n1_pods_json (Summary_zero stub_env)))"
    by (simp add: response_200_def ReadAll_fresh_body)
  with ret' have second: "\<exists>e. fst (GetSummary stub_env the_host (stub_state ?p))
      = Returns (Some \<lparr>Node = \<lparr>NodeName = ''n1''\<rparr>\<rparr>, Some e)"
    by simp
  have zero: "Summary_zero stub_env = \<lparr>Node = \<lparr>NodeName = []\<rparr>\<rparr>"
    by (simp add: stub_env_def)
  from ret first second zero show ?thesis
    by (intro conjI)
qed

text \<open>
  C4 as the specification has it fails: with status 500 the call returns a non-nil error and
  a non-nil pointer, to the zero \<open>Summary\<close> it allocated.
\<close>

theorem GetSummary_error_and_result:
  \<open>fst (GetSummary stub_env the_host (stub_state (response_500 (fresh_body ''internal error''))))
     = Returns (Some \<lparr>Node = \<lparr>NodeName = []\<rparr>\<rparr>,
         Some (errorString
           ''request failed - "500 Internal Server Error", response: "internal error"''))\<close>
proof -
  let ?r = "response_500 (fresh_body ''internal error'')"
  have ra: "ReadAll (Body ?r) = (''internal error'', None, \<lparr>pending = [], fault = None, at_eof = True, isClosed = False\<rparr>)"
    by (simp add: response_500_def ReadAll_fresh_body)
  have status: "StatusCode ?r \<noteq> StatusNotFound" "StatusCode ?r \<noteq> StatusOK"
    by (simp_all add: response_500_def StatusOK_def StatusNotFound_def)
  from GetSummary_bad_status [OF stub_NewRequest_the_request stub_Do_scripted ra status]
  show ?thesis
    by (simp add: stub_env_def response_500_def quote_def quote_ascii_def)
qed

text \<open>
  C5. When the transport answers with status 200 and the decoder accepts the body,
  \<open>GetSummary\<close> returns the decoded value and a nil error.
\<close>

theorem GetSummary_ok:
  assumes req: "http_NewRequest env ''GET'' (url_String env (GetSummary_url (kc st) host)) = Inr req"
    and do: "Client_Do env (GetSummary_client env (kc st)) req (net st) = (Inr r, n)"
    and status: "StatusCode r = 200"
    and readable: "fst (snd (ReadAll (Body r))) = None"
    and decoded: "json_Unmarshal env (fst (ReadAll (Body r))) (Summary_zero env) = (None, v)"
  shows "fst (GetSummary env host st) = Returns (Some v, None)"
proof -
  from readable have ra: "ReadAll (Body r) = (fst (ReadAll (Body r)), None, snd (snd (ReadAll (Body r))))"
    using ReadAll_parts [of "Body r"] by simp
  from status have "StatusCode r = StatusOK"
    by (simp add: StatusOK_def)
  from GetSummary_decoded [OF req do ra this decoded] show ?thesis .
qed

theorem GetSummary_ok_witness:
  "json_Unmarshal stub_env n1_json (Summary_zero stub_env) = (None, \<lparr>Node = \<lparr>NodeName = ''n1''\<rparr>\<rparr>)
   \<and> fst (GetSummary stub_env the_host (stub_state (response_200 n1_json)))
       = Returns (Some \<lparr>Node = \<lparr>NodeName = ''n1''\<rparr>\<rparr>, None)"
proof -
  let ?r = "response_200 n1_json"
  have status: "StatusCode ?r = 200"
    by (simp add: response_200_def)
  have readable: "fst (snd (ReadAll (Body ?r))) = None"
    by (simp add: response_200_def ReadAll_fresh_body)
  have decoded: "json_Unmarshal stub_env (fst (ReadAll (Body ?r))) (Summary_zero stub_env)
      = (None, \<lparr>Node = \<lparr>NodeName = ''n1''\<rparr>\<rparr>)"
    by (simp add: response_200_def ReadAll_fresh_body stub_env_def stub_Unmarshal_def)
  from GetSummary_ok [OF stub_NewRequest_the_request stub_Do_scripted status readable decoded]
    decoded
  show ?thesis
    by (simp add: response_200_def ReadAll_fresh_body)
qed

text \<open>
  C6 (as the code has it). When the transport answers with status 200 and the decoder
  rejects the body, \<open>GetSummary\<close> returns a non-nil error of which \<open>IsNotFoundError\<close> is
  false. Its message holds the body as \<open>%q\<close> writes it, in full, and the message of the
  decoder's error; it holds the body byte for byte when the body is made of printable
  ASCII other than the double quote and the backslash.
\<close>

theorem GetSummary_decode_error:
  fixes env :: "('w, 'v) env"
  defines "m data e \<equiv> ''failed to parse output. Response: '' @ quote (quote_rune env) data
      @ ''. Error: '' @ Error (quote_rune env) e"
  assumes req: "http_NewRequest env ''GET'' (url_String env (GetSummary_url (kc st) host)) = Inr req"
    and do: "Client_Do env (GetSummary_client env (kc st)) req (net st) = (Inr r, n)"
    and status: "StatusCode r = 200"
    and readable: "fst (snd (ReadAll (Body r))) = None"
    and rejected: "json_Unmarshal env (fst (ReadAll (Body r))) (Summary_zero env) = (Some e, v)"
  shows "fst (GetSummary env host st) =
           Returns (Some v, Some (errorString (m (fst (ReadAll (Body r))) e)))
         \<and> IsNotFoundError (Some (errorString (m (fst (ReadAll (Body r))) e))) = False
         \<and> sublist (quote (quote_rune env) (fst (ReadAll (Body r)))) (m (fst (ReadAll (Body r))) e)
         \<and> sublist (Error (quote_rune env) e) (m (fst (ReadAll (Body r))) e)
         \<and> (list_all plain_byte (fst (ReadAll (Body r)))
              \<longrightarrow> sublist (fst (ReadAll (Body r))) (m (fst (ReadAll (Body r))) e))"
proof -
  from readable have ra: "ReadAll (Body r) = (fst (ReadAll (Body r)), None, snd (snd (ReadAll (Body r))))"
    using ReadAll_parts [of "Body r"] by simp
  from status have "StatusCode r = StatusOK"
    by (simp add: StatusOK_def)
  from GetSummary_undecoded [OF req do ra this rejected]
  have "fst (GetSummary env host st) =
      Returns (Some v, Some (errorString (m (fst (ReadAll (Body r))) e)))"
    unfolding m_def .
  moreover have "sublist (quote (quote_rune env) (fst (ReadAll (Body r)))) (m (fst (ReadAll (Body r))) e)"
    unfolding m_def by (rule sublist_appendI)
  moreover have "sublist (Error (quote_rune env) e) (m (fst (ReadAll (Body r))) e)"
    unfolding m_def by (rule sublist_last)
  moreover have "sublist (fst (ReadAll (Body r))) (m (fst (ReadAll (Body r))) e)"
    if "list_all plain_byte (fst (ReadAll (Body r)))"
    unfolding m_def using that by (rule sublist_in_quote)
  ultimately show ?thesis
    by simp
qed

theorem GetSummary_decode_error_witness:
  \<open>fst (GetSummary stub_env the_host (stub_state (response_200 ''not json'')))
     = Returns (Some \<lparr>Node = \<lparr>NodeName = []\<rparr>\<rparr>,
         Some (errorString (''failed to parse output. Response: "not json". ''
           @ ''Error: invalid character 'o' in literal null (expecting 'u')'')))
   \<and> sublist ''not json'' (''failed to parse output. Response: "not json". ''
           @ ''Error: invalid character 'o' in literal null (expecting 'u')'')
   \<and> sublist ''invalid character 'o' in literal null (expecting 'u')''
         (''failed to parse output. Response: "not json". ''
           @ ''Error: invalid character 'o' in literal null (expecting 'u')'')\<close>
proof -
  let ?r = "response_200 ''not json''"
  have status: "StatusCode ?r = 200"
    by (simp add: response_200_def)
  have readable: "fst (snd (ReadAll (Body ?r))) = None"
    by (simp add: response_200_def ReadAll_fresh_body)
  have rejected: "json_Unmarshal stub_env (fst (ReadAll (Body ?r))) (Summary_zero stub_env)
      = (Some (Foreign ''invalid character 'o' in literal null (expecting 'u')'' None),
         \<lparr>Node = \<lparr>NodeName = []\<rparr>\<rparr>)"
    by (simp add: response_200_def ReadAll_fresh_body stub_env_def stub_Unmarshal_def n1_json_def
        n1_pods_json_def)
  have plain: "list_all plain_byte ''not json''"
    by (simp add: plain_byte_def)
  from GetSummary_decode_error [OF stub_NewRequest_the_request stub_Do_scripted status readable rejected]
    plain
  show ?thesis
    by (simp add: response_200_def ReadAll_fresh_body stub_env_def quote_def quote_ascii_def)
qed

text \<open>
  C6 as the specification has it fails: the body \<open>not "json"\<close> is rejected, and the message
  has it with a backslash before each double quote, so not as it was.
\<close>

theorem GetSummary_decode_error_escapes:
  "fst (GetSummary stub_env the_host (stub_state (response_200 quoted_json)))
     = Returns (Some \<lparr>Node = \<lparr>NodeName = []\<rparr>\<rparr>, Some (errorString quoted_json_message))
   \<and> \<not> sublist quoted_json quoted_json_message"
proof -
  let ?r = "response_200 quoted_json"
  have ra: "ReadAll (Body ?r) = (quoted_json, None, \<lparr>pending = [], fault = None, at_eof = True, isClosed = False\<rparr>)"
    by (simp add: response_200_def ReadAll_fresh_body)
  have status: "StatusCode ?r = StatusOK"
    by (simp add: response_200_def StatusOK_def)
  have rejected: "json_Unmarshal stub_env quoted_json (Summary_zero stub_env)
      = (Some (Foreign ''invalid character 'o' in literal null (expecting 'u')'' None),
         \<lparr>Node = \<lparr>NodeName = []\<rparr>\<rparr>)"
    by (simp add: stub_env_def stub_Unmarshal_def n1_json_def n1_pods_json_def quoted_json_def)
  from GetSummary_undecoded [OF stub_NewRequest_the_request stub_Do_scripted ra status rejected]
  have "fst (GetSummary stub_env the_host (stub_state ?r))
      = Returns (Some \<lparr>Node = \<lparr>NodeName = []\<rparr>\<rparr>, Some (errorString quoted_json_message))"
    by (simp add: stub_env_def quote_def quote_ascii_def quoted_json_def quoted_json_message_def)
  moreover have "\<not> sublist quoted_json quoted_json_message"
    by (simp add: quoted_json_def quoted_json_message_def sublist_code)
  ultimately show ?thesis
    by simp
qed

text \<open>
  C7 (as the code has it). When the transport answers with a status that is neither 200
  nor 404 and the body can be read, \<open>GetSummary\<close> returns a non-nil error of which
  \<open>IsNotFoundError\<close> is false. Its message holds the status line and the whole body, each
  as \<open>%q\<close> writes it; it holds either of them byte for byte when that text is made of
  printable ASCII other than the double quote and the backslash.
\<close>

theorem GetSummary_status_error:
  fixes env :: "('w, 'v) env"
  defines "m line data \<equiv> ''request failed - '' @ quote (quote_rune env) line
      @ '', response: '' @ quote (quote_rune env) data"
  assumes req: "http_NewRequest env ''GET'' (url_String env (GetSummary_url (kc st) host)) = Inr req"
    and do: "Client_Do env (GetSummary_client env (kc st)) req (net st) = (Inr r, n)"
    and status: "StatusCode r \<noteq> 200" "StatusCode r \<noteq> 404"
    and readable: "fst (snd (ReadAll (Body r))) = None"
  shows "fst (GetSummary env host st) =
           Returns (Some (Summary_zero env),
             Some (errorString (m (Status r) (fst (ReadAll (Body r))))))
         \<and> IsNotFoundError (Some (errorString (m (Status r) (fst (ReadAll (Body r)))))) = False
         \<and> sublist (quote (quote_rune env) (Status r)) (m (Status r) (fst (ReadAll (Body r))))
         \<and> sublist (quote (quote_rune env) (fst (ReadAll (Body r))))
             (m (Status r) (fst (ReadAll (Body r))))
         \<and> (list_all plain_byte (Status r)
              \<longrightarrow> sublist (Status r) (m (Status r) (fst (ReadAll (Body r)))))
         \<and> (list_all plain_byte (fst (ReadAll (Body r)))
              \<longrightarrow> sublist (fst (ReadAll (Body r))) (m (Status r) (fst (ReadAll (Body r)))))"
proof -
  let ?data = "fst (ReadAll (Body r))"
  from readable have ra: "ReadAll (Body r) = (?data, None, snd (snd (ReadAll (Body r))))"
    using ReadAll_parts [of "Body r"] by simp
  from status have "StatusCode r \<noteq> StatusNotFound" and "StatusCode r \<noteq> StatusOK"
    by (simp_all add: StatusOK_def StatusNotFound_def)
  from GetSummary_bad_status [OF req do ra this]
  have "fst (GetSummary env host st) =
      Returns (Some (Summary_zero env), Some (errorString (m (Status r) ?data)))"
    unfolding m_def .
  moreover have "sublist (quote (quote_rune env) (Status r)) (m (Status r) ?data)"
    unfolding m_def by (rule sublist_appendI)
  moreover have "sublist (quote (quote_rune env) ?data) (m (Status r) ?data)"
    unfolding m_def by (rule sublist_last)
  moreover have "sublist (Status r) (m (Status r) ?data)" if "list_all plain_byte (Status r)"
    unfolding m_def using that by (rule sublist_in_quote)
  moreover have "sublist ?data (m (Status r) ?data)" if "list_all plain_byte ?data"
  proof -
    have "sublist (quote (quote_rune env) ?data) (m (Status r) ?data)"
      unfolding m_def by (rule sublist_last)
    with sublist_quote_plain [OF that, of "quote_rune env"] show ?thesis
      by (rule sublist_order.order_trans)
  qed
  ultimately show ?thesis
    by simp
qed

theorem GetSummary_status_error_witness:
  \<open>fst (GetSummary stub_env the_host (stub_state (response_500 (fresh_body ''internal error''))))
     = Returns (Some \<lparr>Node = \<lparr>NodeName = []\<rparr>\<rparr>,
         Some (errorString
           ''request failed - "500 Internal Server Error", response: "internal error"''))
   \<and> sublist ''500 Internal Server Error''
         ''request failed - "500 Internal Server Error", response: "internal error"''
   \<and> sublist ''internal error''
         ''request failed - "500 Internal Server Error", response: "internal error"''\<close>
proof -
  let ?r = "response_500 (fresh_body ''internal error'')"
  have status: "StatusCode ?r \<noteq> 200" "StatusCode ?r \<noteq> 404"
    by (simp_all add: response_500_def)
  have readable: "fst (snd (ReadAll (Body ?r))) = None"
    by (simp add: response_500_def ReadAll_fresh_body)
  have plain: "list_all plain_byte ''500 Internal Server Error''"
    "list_all plain_byte ''internal error''"
    by (simp_all add: plain_byte_def)
  from GetSummary_status_error [OF stub_NewRequest_the_request stub_Do_scripted status readable]
    plain
  show ?thesis
    by (simp add: response_500_def ReadAll_fresh_body stub_env_def quote_def quote_ascii_def)
qed

text \<open>
  C7 as the specification has it fails twice. A body that ends with a newline is in the
  message with the two bytes \<open>\n\<close> in its place; and when the body of a 500 response
  cannot be read, the message is that of the failed read and has no status line.
\<close>

theorem GetSummary_status_error_escapes:
  "fst (GetSummary stub_env the_host (stub_state (response_500 (fresh_body error_page))))
     = Returns (Some \<lparr>Node = \<lparr>NodeName = []\<rparr>\<rparr>, Some (errorString error_page_message))
   \<and> \<not> sublist error_page error_page_message
   \<and> fst (GetSummary stub_env the_host (stub_state (response_500 broken_body)))
     = Returns (Some \<lparr>Node = \<lparr>NodeName = []\<rparr>\<rparr>,
         Some (errorString ''failed to read response body - unexpected EOF''))
   \<and> \<not> sublist ''500 Internal Server Error'' ''failed to read response body - unexpected EOF''"
proof -
  let ?r = "response_500 (fresh_body error_page)"
  have ra: "ReadAll (Body ?r) = (error_page, None, \<lparr>pending = [], fault = None, at_eof = True, isClosed = False\<rparr>)"
    by (simp add: response_500_def ReadAll_fresh_body)
  have status: "StatusCode ?r \<noteq> StatusNotFound" "StatusCode ?r \<noteq> StatusOK"
    by (simp_all add: response_500_def StatusOK_def StatusNotFound_def)
  from GetSummary_bad_status [OF stub_NewRequest_the_request stub_Do_scripted ra status]
  have "fst (GetSummary stub_env the_host (stub_state ?r))
      = Returns (Some \<lparr>Node = \<lparr>NodeName = []\<rparr>\<rparr>, Some (errorString error_page_message))"
    by (simp add: stub_env_def response_500_def quote_def quote_ascii_def error_page_def
        error_page_message_def)
  moreover have "\<not> sublist error_page error_page_message"
    by (simp add: error_page_def error_page_message_def sublist_code)
  moreover have "ReadAll (Body (response_500 broken_body))
      = ([], Some (Foreign ''unexpected EOF'' None), broken_body)"
    by (simp add: response_500_def ReadAll_broken_body)
  from GetSummary_read_error [OF stub_NewRequest_the_request stub_Do_scripted this]
  have "fst (GetSummary stub_env the_host (stub_state (response_500 broken_body)))
      = Returns (Some \<lparr>Node = \<lparr>NodeName = []\<rparr>\<rparr>,
          Some (errorString ''failed to read response body - unexpected EOF''))"
    by (simp add: stub_env_def)
  moreover have "\<not> sublist ''500 Internal Server Error''
      ''failed to read response body - unexpected EOF''"
    by (simp add: sublist_code)
  ultimately show ?thesis
    by simp
qed

text \<open>
  C8. Whenever the transport hands out a response, the call reads the body of that response
  and closes it before it returns, whatever it returns: the one body the call leaves
  behind is the body of the response after \<open>ioutil.ReadAll\<close> and \<open>Close\<close>, that is, the
  same body closed, with nothing pending, and at its end unless the read itself failed.
  The read succeeds in the four branches that follow it (404, another status, a decoding
  failure, success). The transport is left in the state its one round trip produced.
\<close>

theorem GetSummary_releases_body:
  assumes req: "http_NewRequest env ''GET'' (url_String env (GetSummary_url (kc st) host)) = Inr req"
    and do: "Client_Do env (GetSummary_client env (kc st)) req (net st) = (Inr r, n)"
  shows "bodies (snd (GetSummary env host st)) = bodies st @ [Close (snd (snd (ReadAll (Body r))))]
         \<and> Close (snd (snd (ReadAll (Body r)))) =
             (Body r)\<lparr>pending := [], at_eof := (fst (snd (ReadAll (Body r))) = None),
                       isClosed := True\<rparr>
         \<and> isClosed (Close (snd (snd (ReadAll (Body r)))))
         \<and> pending (Close (snd (snd (ReadAll (Body r))))) = []
         \<and> (fst (snd (ReadAll (Body r))) = None \<longrightarrow> at_eof (Close (snd (snd (ReadAll (Body r))))))
         \<and> net (snd (GetSummary env host st)) = n"
proof (intro conjI)
  show "bodies (snd (GetSummary env host st)) = bodies st @ [Close (snd (snd (ReadAll (Body r))))]"
    by (rule GetSummary_bodies [OF req do])
  show "Close (snd (snd (ReadAll (Body r)))) =
      (Body r)\<lparr>pending := [], at_eof := (fst (snd (ReadAll (Body r))) = None), isClosed := True\<rparr>"
    by (simp add: Close_def ReadAll_def)
  show "isClosed (Close (snd (snd (ReadAll (Body r)))))"
    by (simp add: Close_def)
  show "pending (Close (snd (snd (ReadAll (Body r))))) = []"
    by (simp add: Close_def ReadAll_def)
  show "fst (snd (ReadAll (Body r))) = None \<longrightarrow> at_eof (Close (snd (snd (ReadAll (Body r)))))"
    by (simp add: Close_def ReadAll_def)
  show "net (snd (GetSummary env host st)) = n"
    using post_state [OF do, of "Summary_zero env"] by (auto simp: GetSummary_snd [OF req])
qed

theorem GetSummary_releases_body_witness:
  "Body (response_200 ''not json'')
     = \<lparr>pending = [''not json''], fault = None, at_eof = False, isClosed = False\<rparr>
   \<and> bodies (snd (GetSummary stub_env the_host (stub_state (response_200 ''not json''))))
     = [\<lparr>pending = [], fault = None, at_eof = True, isClosed = True\<rparr>]
   \<and> net (stub_state (response_200 ''not json'')) = 0
   \<and> net (snd (GetSummary stub_env the_host (stub_state (response_200 ''not json'')))) = 1"
proof -
  let ?r = "response_200 ''not json''"
  have fresh: "Body ?r = \<lparr>pending = [''not json''], fault = None, at_eof = False, isClosed = False\<rparr>"
    by (simp add: response_200_def fresh_body_def)
  have start: "bodies (stub_state ?r) = []" "net (stub_state ?r) = 0"
    by (simp_all add: stub_state_def)
  from GetSummary_releases_body [OF stub_NewRequest_the_request stub_Do_scripted, of ?r]
  show ?thesis
    by (simp add: fresh start ReadAll_def Close_def)
qed

text \<open>
  C9. A call does not change the client it is called on, and what it returns depends on
  the state it starts in only through the client and the transport's reply to its request:
  if that reply is the same in every state of the transport, a second call with the same
  host, made in the state the first one left, returns what the first returned.
\<close>

theorem GetSummary_stateless:
  assumes stable: "\<And>req n n'.
      http_NewRequest env ''GET'' (url_String env (GetSummary_url (kc st) host)) = Inr req
      \<Longrightarrow> fst (Client_Do env (GetSummary_client env (kc st)) req n)
          = fst (Client_Do env (GetSummary_client env (kc st)) req n')"
  shows "fst (GetSummary env host (snd (GetSummary env host st))) = fst (GetSummary env host st)
         \<and> kc (snd (GetSummary env host st)) = kc st
         \<and> kc (snd (GetSummary env host (snd (GetSummary env host st)))) = kc st"
proof (intro conjI)
  show same: "kc (snd (GetSummary env host st)) = kc st"
    by (rule GetSummary_kc)
  show "kc (snd (GetSummary env host (snd (GetSummary env host st)))) = kc st"
    by (simp add: GetSummary_kc)
  show "fst (GetSummary env host (snd (GetSummary env host st))) = fst (GetSummary env host st)"
    using same stable by (rule GetSummary_reply_only)
qed

theorem GetSummary_stateless_witness:
  "fst (GetSummary stub_env the_host
          (snd (GetSummary stub_env the_host (stub_state (response_200 n1_json)))))
     = fst (GetSummary stub_env the_host (stub_state (response_200 n1_json)))
   \<and> kc (snd (GetSummary stub_env the_host (stub_state (response_200 n1_json))))
     = kc (stub_state (response_200 n1_json))"
proof -
  let ?st = "stub_state (response_200 n1_json)"
  have "fst (Client_Do stub_env (GetSummary_client stub_env (kc ?st)) req n)
      = fst (Client_Do stub_env (GetSummary_client stub_env (kc ?st)) req n')" for req n n'
    by (simp add: stub_env_def stub_state_def NewKubeletClient_def GetSummary_client_def
        stub_Do_def scripted_def)
  from GetSummary_stateless [of stub_env ?st the_host, OF this] show ?thesis
    by simp
qed

text \<open>
  C10. The body is read before the status is looked at: when the transport answers with
  status 404 and reading the body fails, \<open>GetSummary\<close> returns the error of the failed
  read, whose message ends with the message of the reader's error, and
  \<open>IsNotFoundError\<close> is false of it.
\<close>

theorem GetSummary_unreadable_404:
  assumes req: "http_NewRequest env ''GET'' (url_String env (GetSummary_url (kc st) host)) = Inr req"
    and do: "Client_Do env (GetSummary_client env (kc st)) req (net st) = (Inr r, n)"
    and status: "StatusCode r = 404"
    and unreadable: "fst (snd (ReadAll (Body r))) = Some e"
  shows "fst (GetSummary env host st) =
           Returns (Some (Summary_zero env),
             Some (errorString (''failed to read response body - '' @ Error (quote_rune env) e)))
         \<and> sublist (Error (quote_rune env) e)
             (''failed to read response body - '' @ Error (quote_rune env) e)
         \<and> IsNotFoundError (Some (errorString
             (''failed to read response body - '' @ Error (quote_rune env) e))) = False"
proof -
  from unreadable have ra: "ReadAll (Body r) = (fst (ReadAll (Body r)), Some e, snd (snd (ReadAll (Body r))))"
    using ReadAll_parts [of "Body r"] by simp
  from GetSummary_read_error [OF req do ra] show ?thesis
    by (simp del: append.simps)
qed

theorem GetSummary_unreadable_404_witness:
  "StatusCode (response_404 broken_body) = 404
   \<and> fst (GetSummary stub_env the_host (stub_state (response_404 broken_body)))
       = Returns (Some \<lparr>Node = \<lparr>NodeName = []\<rparr>\<rparr>,
           Some (errorString ''failed to read response body - unexpected EOF''))
   \<and> IsNotFoundError (Some (errorString ''failed to read response body - unexpected EOF''))
       = False"
proof -
  let ?r = "response_404 broken_body"
  have status: "StatusCode ?r = 404"
    by (simp add: response_404_def)
  have unreadable: "fst (snd (ReadAll (Body ?r))) = Some (Foreign ''unexpected EOF'' None)"
    by (simp add: response_404_def ReadAll_broken_body)
  from GetSummary_unreadable_404 [OF stub_NewRequest_the_request stub_Do_scripted status unreadable]
  show ?thesis
    by (simp add: status stub_env_def)
qed

end
